theory Spec2Isabelle
  imports Main
begin

section \<open>The Portal's AMP server: \<^verbatim>\<open>evennia/server/portal/amp_server.py\<close>\<close>

text \<open>
  The Portal (the spec's Gateway) runs an AMP server. The class \<^verbatim>\<open>AMPServerProtocol\<close>
  holds one method per message kind; the factory holds the state shared by all
  connections. The model below follows the methods of that class one by one, with the
  mutable attributes of the factory and of the portal collected in one record that every
  method takes and returns.

  Collaborators that live outside the file (\<^verbatim>\<open>subprocess.Popen\<close>, the logger, the
  portal's session handler, \<^verbatim>\<open>data_out\<close>, \<^verbatim>\<open>portal.shutdown\<close>) are not
  executed: each call to one of them appends an event to the \<open>trace\<close> of the state, in
  program order. What they return is either a parameter of the method (\<open>popen\<close>,
  \<open>loads\<close>, \<open>data_in\<close>, the table \<open>amp\<close> of operation codes) or a field of the
  state (\<open>sessions\<close>, \<open>all_sync_data\<close>). The decorators \<^verbatim>\<open>amp.catch_traceback\<close> and
  \<^verbatim>\<open>responder\<close> are defined in \<^verbatim>\<open>amp.py\<close>; the definitions here are the bodies
  of the decorated methods.
\<close>

subsection \<open>Values, exceptions, outcomes\<close>

text \<open>Instances of Python's \<^verbatim>\<open>Exception\<close>, by class, with their message.\<close>

datatype py_exception =
    Exception string
  | OSError string
  | TypeError string
  | KeyError string
  | UnboundLocalError string

text \<open>The classes of \<^verbatim>\<open>BaseException\<close> that are not subclasses of
  \<^verbatim>\<open>Exception\<close>: a clause \<^verbatim>\<open>except Exception\<close> does not catch them.\<close>

datatype py_base_exception = SystemExit | KeyboardInterrupt | GeneratorExit

text \<open>
  A call either returns a value or raises; the state it leaves behind is kept in both
  cases, since Python does not roll back the assignments made before a raise. What is
  raised is an instance of \<^verbatim>\<open>Exception\<close> (\<open>Raises\<close>) or one of the classes outside
  it (\<open>Raises_base\<close>), so that the class test of an \<^verbatim>\<open>except Exception\<close> clause is
  the distinction between the two constructors.
\<close>

datatype 'a outcome = Returns 'a | Raises py_exception | Raises_base py_base_exception

text \<open>The opaque values carried in the keyword arguments of a message.\<close>

datatype pyval = PyNone | PyBool bool | PyStr string

type_synonym kwargs = "string \<rightharpoonup> pyval"

text \<open>A connection is an \<^verbatim>\<open>AMPServerProtocol\<close> instance, identified by a number.\<close>

type_synonym conn = nat

text \<open>The launch command handed to \<^verbatim>\<open>Popen\<close>; \<open>None\<close> is Python's \<^verbatim>\<open>None\<close>,
  the value of \<^verbatim>\<open>portal.server_twistd_cmd\<close> before the first successful start.\<close>

type_synonym cmd = "string list option"

text \<open>
  What \<^verbatim>\<open>wait_for_disconnect\<close> stores: a callable with its arguments. The file
  registers two of them, the bound method \<^verbatim>\<open>self.start_server\<close> with a command and
  \<^verbatim>\<open>portal.shutdown\<close> with \<^verbatim>\<open>restart=...\<close>; any other callable is \<open>Foreign\<close>,
  and its behaviour, including what it raises, is a parameter of \<open>connectionLost\<close>.
\<close>

datatype 'x callback =
    Start_server conn cmd
  | Portal_shutdown bool
  | Foreign 'x

datatype event =
    Popen cmd
  | Log_server string
  | Log_trace py_exception
  | Log_msg_operation nat
  | Log_msg_arguments "string list"
  | AdminPortal2Server conn char kwargs
  | Portal_shutdown_call bool
  | Server_logged_in int pyval
  | Server_disconnect int pyval
  | Server_disconnect_all pyval
  | Server_session_sync pyval pyval
  | At_server_connection
  | Server_connect kwargs

text \<open>The operation codes of \<^verbatim>\<open>amp.py\<close> that the file compares against, one
  character each. Their values are not part of the file.\<close>

record amp_ops =
  SSTART :: char
  SRELOAD :: char
  SRESET :: char
  SSHUTD :: char
  PSHUTD :: char
  SLOGIN :: char
  SDISCONN :: char
  SDISCONNALL :: char
  PSYNC :: char
  SSYNC :: char
  SCONN :: char

subsection \<open>The state of the factory and the portal\<close>

record 'x portal_state =
  server_connection :: "conn option"
  transport_connected :: "conn \<Rightarrow> bool"
  disconnect_callbacks :: "conn \<rightharpoonup> 'x callback"
  server_restart_mode :: bool
  server_process_id :: "int option"
  server_twistd_cmd :: cmd
  sessions :: "int \<Rightarrow> bool"
  all_sync_data :: pyval
  trace :: "event list"

definition emit :: "event list \<Rightarrow> 'x portal_state \<Rightarrow> 'x portal_state" where
  "emit es s = s\<lparr>trace := trace s @ es\<rparr>"

subsection \<open>Formatting\<close>

text \<open>\<^verbatim>\<open>str\<close> of an integer, and of a process identifier that may be \<^verbatim>\<open>None\<close>.\<close>

fun str_nat :: "nat \<Rightarrow> string" where
  "str_nat n =
     (if n < 10 then [''0123456789'' ! n]
      else str_nat (n div 10) @ [''0123456789'' ! (n mod 10)])"

declare str_nat.simps [simp del]

definition str_int :: "int \<Rightarrow> string" where
  "str_int i = (if i < 0 then CHR ''-'' # str_nat (nat (- i)) else str_nat (nat i))"

definition str_pid :: "int option \<Rightarrow> string" where
  "str_pid p = (case p of None \<Rightarrow> ''None'' | Some i \<Rightarrow> str_int i)"

subsection \<open>The disconnect callbacks and the subprocess\<close>

text \<open>
  \<^verbatim>\<open>start_server\<close>, lines 88 to 112. \<open>popen cmd\<close> is what \<^verbatim>\<open>Popen\<close> does with the
  command: it raises, or it gives a process with its identifier and the output read from
  its pipe. A launch that fails raises an instance of \<^verbatim>\<open>Exception\<close>
  (\<^verbatim>\<open>OSError\<close>, \<^verbatim>\<open>ValueError\<close>, \<^verbatim>\<open>TypeError\<close>), which the clause
  \<^verbatim>\<open>except Exception\<close> of line 100 catches. The method returns 0 after a failed
  launch and the new identifier otherwise.
\<close>

definition start_server ::
  "(cmd \<Rightarrow> py_exception + int \<times> string) \<Rightarrow> conn \<Rightarrow> cmd \<Rightarrow> 'x portal_state
     \<Rightarrow> int outcome \<times> 'x portal_state" where
  "start_server popen self c s =
     (case popen c of
        Inl e \<Rightarrow> (Returns 0, emit [Popen c, Log_trace e] (s\<lparr>server_process_id := None\<rparr>))
      | Inr (pid, out) \<Rightarrow>
          (Returns pid, (emit [Popen c, Log_server out] s)
                  \<lparr>server_process_id := Some pid, server_twistd_cmd := c\<rparr>))"

text \<open>\<^verbatim>\<open>wait_for_disconnect\<close>, line 123: a dictionary assignment under the key \<^verbatim>\<open>self\<close>.\<close>

definition wait_for_disconnect :: "conn \<Rightarrow> 'x callback \<Rightarrow> 'x portal_state \<Rightarrow> 'x portal_state" where
  "wait_for_disconnect self cb s =
     s\<lparr>disconnect_callbacks := (disconnect_callbacks s)(self \<mapsto> cb)\<rparr>"

text \<open>Calling a stored callable: \<^verbatim>\<open>callback(*args, **kwargs)\<close>, its value dropped.\<close>

definition call_callback ::
  "(cmd \<Rightarrow> py_exception + int \<times> string) \<Rightarrow> ('x \<Rightarrow> 'x portal_state \<Rightarrow> unit outcome \<times> 'x portal_state)
     \<Rightarrow> 'x callback \<Rightarrow> 'x portal_state \<Rightarrow> unit outcome \<times> 'x portal_state" where
  "call_callback popen foreign cb s =
     (case cb of
        Start_server c args \<Rightarrow>
          (case start_server popen c args s of
             (Returns pid, s') \<Rightarrow> (Returns (), s')
           | (Raises e, s') \<Rightarrow> (Raises e, s')
           | (Raises_base b, s') \<Rightarrow> (Raises_base b, s'))
      | Portal_shutdown restart \<Rightarrow> (Returns (), emit [Portal_shutdown_call restart] s)
      | Foreign x \<Rightarrow> foreign x s)"

text \<open>
  \<^verbatim>\<open>connectionLost\<close>, lines 76 to 86: the entry of \<^verbatim>\<open>self\<close> is popped and the
  callable is called if there was one. The clause of line 85 is \<^verbatim>\<open>except Exception\<close>:
  an instance of \<^verbatim>\<open>Exception\<close> raised by the callable is handed to
  \<^verbatim>\<open>logger.log_trace\<close> and the method returns; anything else the callable raises
  (\<^verbatim>\<open>SystemExit\<close>, \<^verbatim>\<open>KeyboardInterrupt\<close>, \<^verbatim>\<open>GeneratorExit\<close>) passes through
  the clause and leaves the method. The argument \<^verbatim>\<open>reason\<close> is not used.
\<close>

definition connectionLost ::
  "(cmd \<Rightarrow> py_exception + int \<times> string) \<Rightarrow> ('x \<Rightarrow> 'x portal_state \<Rightarrow> unit outcome \<times> 'x portal_state)
     \<Rightarrow> conn \<Rightarrow> 'x portal_state \<Rightarrow> unit outcome \<times> 'x portal_state" where
  "connectionLost popen foreign self s =
     (case disconnect_callbacks s self of
        None \<Rightarrow> (Returns (), s)
      | Some cb \<Rightarrow>
          (case call_callback popen foreign cb
                  (s\<lparr>disconnect_callbacks := (disconnect_callbacks s)(self := None)\<rparr>) of
             (Returns u, s') \<Rightarrow> (Returns (), s')
           | (Raises e, s') \<Rightarrow> (Returns (), emit [Log_trace e] s')
           | (Raises_base b, s') \<Rightarrow> (Raises_base b, s')))"

subsection \<open>Sending to the Server\<close>

text \<open>\<^verbatim>\<open>send_AdminPortal2Server\<close>, line 169, always called with \<^verbatim>\<open>amp.DUMMYSESSION\<close>.\<close>

definition send_AdminPortal2Server ::
  "conn \<Rightarrow> char \<Rightarrow> kwargs \<Rightarrow> 'x portal_state \<Rightarrow> 'x portal_state" where
  "send_AdminPortal2Server self operation kw s = emit [AdminPortal2Server self operation kw] s"

text \<open>\<^verbatim>\<open>stop_server\<close>, lines 125 to 138; a mode outside the three is ignored.\<close>

definition stop_server :: "amp_ops \<Rightarrow> conn \<Rightarrow> string \<Rightarrow> 'x portal_state \<Rightarrow> 'x portal_state" where
  "stop_server amp self mode s =
     (if mode = ''reload'' then send_AdminPortal2Server self (SRELOAD amp) Map.empty s
      else if mode = ''reset'' then send_AdminPortal2Server self (SRESET amp) Map.empty s
      else if mode = ''shutdown'' then send_AdminPortal2Server self (SSHUTD amp) Map.empty s
      else s)"

subsection \<open>The launcher's handler\<close>

text \<open>The reply dictionary: \<^verbatim>\<open>{"result": amp.dumps((success, txt))}\<close> built by
  \<^verbatim>\<open>_retval\<close>, or the fallback \<^verbatim>\<open>{"result": ""}\<close> of line 267.\<close>

datatype reply = Result_dumps bool string | Result_plain string

definition retval :: "bool \<Rightarrow> string \<Rightarrow> reply" where
  "retval success txt = Result_dumps success txt"

text \<open>Lines 219 and 220: the stored connection, if any, and its transport's flag.\<close>

definition server_connected :: "'x portal_state \<Rightarrow> bool" where
  "server_connected s =
     (case server_connection s of None \<Rightarrow> False | Some c \<Rightarrow> transport_connected s c)"

text \<open>
  \<^verbatim>\<open>portal_receive_launcher2portal\<close>, lines 199 to 267. \<open>loads\<close> is \<^verbatim>\<open>amp.loads\<close>
  on the argument blob, which the launcher fills with the pickled launch command. The
  connected-reset branch reads the local variable \<^verbatim>\<open>spid\<close>, which only the other
  branches assign.
\<close>

definition portal_receive_launcher2portal ::
  "amp_ops \<Rightarrow> ('b \<Rightarrow> string list) \<Rightarrow> (cmd \<Rightarrow> py_exception + int \<times> string) \<Rightarrow> conn \<Rightarrow> char \<Rightarrow> 'b
     \<Rightarrow> 'x portal_state \<Rightarrow> reply outcome \<times> 'x portal_state" where
  "portal_receive_launcher2portal amp loads popen self operation arguments s =
     (let connected = server_connected s;
          server_pid = server_process_id s;
          s0 = emit [Log_msg_operation (of_char operation), Log_msg_arguments (loads arguments)] s
      in
      if operation = SSTART amp then
        (if connected then
           (Returns (retval False (''Server already running at PID='' @ str_pid server_pid)), s0)
         else
           (case start_server popen self (Some (loads arguments)) s0 of
              (Returns spid, s1) \<Rightarrow>
                (Returns (retval True (''Server started with PID '' @ str_int spid @ ''.'')), s1)
            | (Raises e, s1) \<Rightarrow> (Raises e, s1)
            | (Raises_base b, s1) \<Rightarrow> (Raises_base b, s1)))
      else if operation = SRELOAD amp then
        (if connected then
           (Returns (Result_plain ''''), stop_server amp self ''reload'' s0)
         else
           (case start_server popen self (Some (loads arguments)) s0 of
              (Returns spid, s1) \<Rightarrow>
                (Returns (retval True (''Server started with PID '' @ str_int spid @ ''.'')), s1)
            | (Raises e, s1) \<Rightarrow> (Raises e, s1)
            | (Raises_base b, s1) \<Rightarrow> (Raises_base b, s1)))
      else if operation = SRESET amp then
        (if connected then
           (Raises (UnboundLocalError ''spid''), stop_server amp self ''reset'' s0)
         else
           (case start_server popen self (Some (loads arguments)) s0 of
              (Returns spid, s1) \<Rightarrow>
                (Returns (retval True (''Server started with PID '' @ str_int spid @ ''.'')), s1)
            | (Raises e, s1) \<Rightarrow> (Raises e, s1)
            | (Raises_base b, s1) \<Rightarrow> (Raises_base b, s1)))
      else if operation = SSHUTD amp then
        (if connected then
           (Returns (retval True ''Server stopped.''), stop_server amp self ''shutdown'' s0)
         else
           (Returns (retval False ''Server not running''), s0))
      else if operation = PSHUTD amp then
        (if connected then
           (Returns (retval True ''Server stopped.''), stop_server amp self ''shutdown'' s0)
         else
           (Returns (Result_plain ''''), emit [Portal_shutdown_call False] s0))
      else
        (Raises (Exception (''operation '' @ [operation] @ '' not recognized.'')), s0))"

subsection \<open>The Server's admin handler\<close>

text \<open>\<^verbatim>\<open>str\<close> of a value, as the \<^verbatim>\<open>%s\<close> of the error message formats it.\<close>

fun str_pyval :: "pyval \<Rightarrow> string" where
  "str_pyval PyNone = ''None''"
| "str_pyval (PyBool b) = (if b then ''True'' else ''False'')"
| "str_pyval (PyStr t) = t"

text \<open>\<^verbatim>\<open>kwargs.get(key)\<close> and \<^verbatim>\<open>kwargs.get(key, default)\<close>.\<close>

definition kwargs_get :: "kwargs \<Rightarrow> string \<Rightarrow> pyval \<Rightarrow> pyval" where
  "kwargs_get kw k d = (case kw k of None \<Rightarrow> d | Some v \<Rightarrow> v)"

text \<open>
  \<^verbatim>\<open>portal_receive_adminserver2portal\<close>, lines 288 to 360. \<open>data_in\<close> unpacks the
  payload into the session identifier and the keyword dictionary; popping the key
  \<^verbatim>\<open>"operation"\<close> raises \<^verbatim>\<open>KeyError\<close> when the dictionary has none. The handler
  registers its callbacks through \<^verbatim>\<open>self.factory.server_connection\<close>, which line 303
  has just set to \<^verbatim>\<open>self\<close>.
\<close>

definition portal_receive_adminserver2portal ::
  "amp_ops \<Rightarrow> ('p \<Rightarrow> int \<times> kwargs) \<Rightarrow> conn \<Rightarrow> 'p \<Rightarrow> 'x portal_state
     \<Rightarrow> unit outcome \<times> 'x portal_state" where
  "portal_receive_adminserver2portal amp data_in self packed_data s =
     (case data_in packed_data of
        (sessid, kwargs0) \<Rightarrow>
          (case kwargs0 ''operation'' of
             None \<Rightarrow> (Raises (KeyError ''operation''), s)
           | Some operation \<Rightarrow>
               (let kw = kwargs0(''operation'' := None);
                    s0 = s\<lparr>server_connection := Some self\<rparr>
                in
                if operation = PyStr [SLOGIN amp] then
                  (Returns (),
                   if sessions s0 sessid
                   then emit [Server_logged_in sessid (kwargs_get kw ''sessiondata'' PyNone)] s0
                   else s0)
                else if operation = PyStr [SDISCONN amp] then
                  (Returns (),
                   if sessions s0 sessid
                   then emit [Server_disconnect sessid (kwargs_get kw ''reason'' PyNone)] s0
                   else s0)
                else if operation = PyStr [SDISCONNALL amp] then
                  (Returns (), emit [Server_disconnect_all (kwargs_get kw ''reason'' PyNone)] s0)
                else if operation = PyStr [SRELOAD amp] then
                  (Returns (),
                   stop_server amp self ''reload''
                     (wait_for_disconnect self (Start_server self (server_twistd_cmd s0)) s0))
                else if operation = PyStr [SRESET amp] then
                  (Returns (),
                   stop_server amp self ''reset''
                     (wait_for_disconnect self (Start_server self (server_twistd_cmd s0)) s0))
                else if operation = PyStr [SSHUTD amp] then
                  (Returns (), stop_server amp self ''shutdown'' s0)
                else if operation = PyStr [PSHUTD amp] then
                  (Returns (),
                   stop_server amp self ''shutdown''
                     (wait_for_disconnect self (Portal_shutdown False) s0))
                else if operation = PyStr [PSYNC amp] then
                  (Returns (),
                   emit [At_server_connection]
                     (send_AdminPortal2Server self (PSYNC amp)
                        [''sessiondata'' \<mapsto> all_sync_data s0] s0))
                else if operation = PyStr [SSYNC amp] then
                  (Returns (),
                   (emit [Server_session_sync (kwargs_get kw ''sessiondata'' PyNone)
                            (kwargs_get kw ''clean'' (PyBool True))] s0)
                     \<lparr>server_restart_mode := True\<rparr>)
                else if operation = PyStr [SCONN amp] then
                  (Returns (), emit [Server_connect kw] s0)
                else
                  (Raises (Exception (''operation '' @ str_pyval operation @ '' not recognized.'')), s0))))"

subsection \<open>Observations on the trace\<close>

text \<open>The commands handed to \<^verbatim>\<open>Popen\<close> so far, and the calls of
  \<^verbatim>\<open>portal.shutdown\<close> so far, in order.\<close>

fun popen_of :: "event \<Rightarrow> cmd list" where
  "popen_of (Popen c) = [c]"
| "popen_of _ = []"

definition spawned :: "'x portal_state \<Rightarrow> cmd list" where
  "spawned s = concat (map popen_of (trace s))"

fun shutdown_of :: "event \<Rightarrow> bool list" where
  "shutdown_of (Portal_shutdown_call r) = [r]"
| "shutdown_of _ = []"

definition portal_shutdowns :: "'x portal_state \<Rightarrow> bool list" where
  "portal_shutdowns s = concat (map shutdown_of (trace s))"

text \<open>The five codes the launcher's handler compares against, in the order of its
  \<^verbatim>\<open>if\<close>/\<^verbatim>\<open>elif\<close> chain.\<close>

definition launcher_ops :: "amp_ops \<Rightarrow> char list" where
  "launcher_ops amp = [SSTART amp, SRELOAD amp, SRESET amp, SSHUTD amp, PSHUTD amp]"

subsection \<open>A concrete portal\<close>

text \<open>
  A table of operation codes: the five of the launcher as the comments of lines 226 to
  258 number them (15, 14, 19, 17, 16), the others distinct from them. A portal whose
  Server is connected as connection 1, running as process 100, started with the command
  \<^verbatim>\<open>["run-core"]\<close>; the same portal with no Server; a \<^verbatim>\<open>Popen\<close> that
  succeeds and one that fails; a foreign callable that raises an \<^verbatim>\<open>Exception\<close>, one
  that is interrupted, and one that returns.
\<close>

definition evennia_amp :: amp_ops where
  "evennia_amp =
     \<lparr>SSTART = CHR 0x0F, SRELOAD = CHR 0x0E, SRESET = CHR 0x13, SSHUTD = CHR 0x11,
      PSHUTD = CHR 0x10, SLOGIN = CHR 0x04, SDISCONN = CHR 0x05, SDISCONNALL = CHR 0x06,
      PSYNC = CHR 0x03, SSYNC = CHR 0x08, SCONN = CHR 0x0B\<rparr>"

definition core_running :: "string portal_state" where
  "core_running =
     \<lparr>server_connection = Some 1, transport_connected = (\<lambda>c. c = 1),
      disconnect_callbacks = Map.empty, server_restart_mode = False,
      server_process_id = Some 100, server_twistd_cmd = Some [''run-core''],
      sessions = (\<lambda>i. False), all_sync_data = PyNone, trace = []\<rparr>"

definition core_down :: "string portal_state" where
  "core_down = core_running\<lparr>server_connection := None, server_process_id := None\<rparr>"

definition popen_fails :: "cmd \<Rightarrow> py_exception + int \<times> string" where
  "popen_fails c = Inl (OSError ''No such file or directory'')"

definition popen_ok :: "cmd \<Rightarrow> py_exception + int \<times> string" where
  "popen_ok c = Inr (101, ''starting'')"

definition foreign_raises ::
  "string \<Rightarrow> string portal_state \<Rightarrow> unit outcome \<times> string portal_state" where
  "foreign_raises x s = (Raises (Exception x), s)"

definition foreign_interrupted ::
  "string \<Rightarrow> string portal_state \<Rightarrow> unit outcome \<times> string portal_state" where
  "foreign_interrupted x s = (Raises_base KeyboardInterrupt, s)"

definition foreign_silent ::
  "string \<Rightarrow> string portal_state \<Rightarrow> unit outcome \<times> string portal_state" where
  "foreign_silent x s = (Returns (), s)"

section \<open>Properties\<close>

subsection \<open>Basic facts\<close>

lemma emit_emit: "emit es' (emit es s) = emit (es @ es') s"
  by (simp add: emit_def)

lemma emit_fields [simp]:
  "trace (emit es s) = trace s @ es"
  "server_connection (emit es s) = server_connection s"
  "transport_connected (emit es s) = transport_connected s"
  "disconnect_callbacks (emit es s) = disconnect_callbacks s"
  "server_restart_mode (emit es s) = server_restart_mode s"
  "server_process_id (emit es s) = server_process_id s"
  "server_twistd_cmd (emit es s) = server_twistd_cmd s"
  "sessions (emit es s) = sessions s"
  "all_sync_data (emit es s) = all_sync_data s"
  by (simp_all add: emit_def)

lemma spawned_emit [simp]: "spawned (emit es s) = spawned s @ concat (map popen_of es)"
  by (simp add: spawned_def)

lemma portal_shutdowns_emit [simp]:
  "portal_shutdowns (emit es s) = portal_shutdowns s @ concat (map shutdown_of es)"
  by (simp add: portal_shutdowns_def)

lemma server_connected_emit [simp]: "server_connected (emit es s) = server_connected s"
  by (simp add: server_connected_def split: option.split)

lemma stop_server_emit:
  "stop_server amp self ''reload'' s = emit [AdminPortal2Server self (SRELOAD amp) Map.empty] s"
  "stop_server amp self ''reset'' s = emit [AdminPortal2Server self (SRESET amp) Map.empty] s"
  "stop_server amp self ''shutdown'' s = emit [AdminPortal2Server self (SSHUTD amp) Map.empty] s"
  by (simp_all add: stop_server_def send_AdminPortal2Server_def)

lemma str_int_0: "str_int 0 = ''0''"
  by (simp add: str_int_def str_nat.simps)

lemma str_int_examples: "str_int 100 = ''100''" "str_int (- 4711) = ''-4711''"
  by (simp_all add: str_int_def str_nat.simps)

lemma core_running_fields:
  "server_process_id core_running = Some 100"
  "server_twistd_cmd core_running = Some [''run-core'']"
  "server_connection core_running = Some 1"
  "disconnect_callbacks core_running = Map.empty"
  "spawned core_running = []"
  "portal_shutdowns core_running = []"
  "trace core_running = []"
  by (simp_all add: core_running_def spawned_def portal_shutdowns_def)

lemma core_running_connected: "server_connected core_running"
  by (simp add: server_connected_def core_running_def)

lemma core_down_disconnected: "\<not> server_connected core_down"
  by (simp add: server_connected_def core_down_def)

lemma evennia_amp_fields:
  "SSTART evennia_amp = CHR 0x0F" "SRELOAD evennia_amp = CHR 0x0E" "SRESET evennia_amp = CHR 0x13"
  "SSHUTD evennia_amp = CHR 0x11" "PSHUTD evennia_amp = CHR 0x10"
  by (simp_all add: evennia_amp_def)

subsection \<open>The registry of disconnect callbacks\<close>

lemma connectionLost_unregistered:
  "disconnect_callbacks s self = None \<Longrightarrow> connectionLost popen foreign self s = (Returns (), s)"
  by (simp add: connectionLost_def)

lemma start_server_registry:
  "disconnect_callbacks (snd (start_server popen c a s)) = disconnect_callbacks s"
  by (simp add: start_server_def split: sum.split prod.split)

lemma call_callback_keeps_unregistered:
  assumes "\<And>x t. disconnect_callbacks t self = None
             \<Longrightarrow> disconnect_callbacks (snd (foreign x t)) self = None"
    and "disconnect_callbacks s self = None"
  shows "disconnect_callbacks (snd (call_callback popen foreign cb s)) self = None"
proof (cases cb)
  case (Start_server c a)
  then show ?thesis
    using assms(2) start_server_registry [of popen c a s]
    by (auto simp add: call_callback_def split: prod.splits outcome.splits)
next
  case (Portal_shutdown r)
  then show ?thesis using assms(2) by (simp add: call_callback_def)
next
  case (Foreign x)
  then show ?thesis using assms by (simp add: call_callback_def)
qed

lemma connectionLost_unregisters:
  assumes "\<And>x t. disconnect_callbacks t self = None
             \<Longrightarrow> disconnect_callbacks (snd (foreign x t)) self = None"
  shows "disconnect_callbacks (snd (connectionLost popen foreign self s)) self = None"
proof (cases "disconnect_callbacks s self")
  case None
  then show ?thesis by (simp add: connectionLost_def)
next
  case (Some cb)
  let ?s1 = "s\<lparr>disconnect_callbacks := (disconnect_callbacks s)(self := None)\<rparr>"
  have "disconnect_callbacks ?s1 self = None"
    by simp
  then have "disconnect_callbacks (snd (call_callback popen foreign cb ?s1)) self = None"
    using assms by (rule call_callback_keeps_unregistered [rotated])
  with Some show ?thesis
    by (auto simp add: connectionLost_def split: prod.splits outcome.splits)
qed

lemma wait_for_disconnect_twice:
  "wait_for_disconnect self cb2 (wait_for_disconnect self cb1 s) = wait_for_disconnect self cb2 s"
  by (simp add: wait_for_disconnect_def)

lemma connectionLost_registered:
  "connectionLost popen foreign self (wait_for_disconnect self cb s)
     = (case call_callback popen foreign cb
               (s\<lparr>disconnect_callbacks := (disconnect_callbacks s)(self := None)\<rparr>) of
          (Returns u, s') \<Rightarrow> (Returns (), s')
        | (Raises e, s') \<Rightarrow> (Returns (), emit [Log_trace e] s')
        | (Raises_base b, s') \<Rightarrow> (Raises_base b, s'))"
  by (simp add: connectionLost_def wait_for_disconnect_def)

lemma foreign_silent_keeps_unregistered:
  "\<forall>x t. disconnect_callbacks t self = None
     \<longrightarrow> disconnect_callbacks (snd (foreign_silent x t)) self = None"
  by (simp add: foreign_silent_def)

lemma launcher_reply_ignores_trace:
  "fst (portal_receive_launcher2portal amp loads popen self operation arguments (emit es s))
     = fst (portal_receive_launcher2portal amp loads popen self operation arguments s)"
  by (simp add: portal_receive_launcher2portal_def start_server_def Let_def
        split: sum.split prod.split)

subsection \<open>The subprocess supervisor\<close>

text \<open>
  Claim C8. If spawning the Server process fails, that is, if \<^verbatim>\<open>Popen\<close> raises on the
  command, then \<^verbatim>\<open>start_server\<close> returns normally (with the value 0), the stored
  process identifier is cleared, and the stored start command keeps the value it had. The
  trace grows by the launch attempt and the logged traceback, nothing else.
\<close>

theorem start_server_spawn_failure:
  assumes "popen c = Inl e"
  shows "fst (start_server popen self c s) = Returns 0
       \<and> server_process_id (snd (start_server popen self c s)) = None
       \<and> server_twistd_cmd (snd (start_server popen self c s)) = server_twistd_cmd s
       \<and> trace (snd (start_server popen self c s)) = trace s @ [Popen c, Log_trace e]"
  using assms by (simp add: start_server_def)

theorem start_server_spawn_failure_witness:
  "popen_fails (Some [''no-such-core'']) = Inl (OSError ''No such file or directory'')
   \<and> fst (start_server popen_fails 2 (Some [''no-such-core'']) core_running) = Returns 0
   \<and> server_process_id (snd (start_server popen_fails 2 (Some [''no-such-core'']) core_running))
       = None
   \<and> server_twistd_cmd (snd (start_server popen_fails 2 (Some [''no-such-core'']) core_running))
       = Some [''run-core'']"
proof -
  have f: "popen_fails (Some [''no-such-core'']) = Inl (OSError ''No such file or directory'')"
    by (simp add: popen_fails_def)
  show ?thesis
    using f
      start_server_spawn_failure [where popen = popen_fails and c = "Some [''no-such-core'']"
        and e = "OSError ''No such file or directory''" and self = 2 and s = core_running]
    by (simp add: core_running_fields)
qed

subsection \<open>The launcher's handler, Server connected\<close>

text \<open>
  Claim C6. Whenever the launcher's handler receives the start operation while the Server
  connection is open, no process is spawned, the stored process identifier and start
  command are unchanged, and the reply has success \<^verbatim>\<open>False\<close> with the message
  \<^verbatim>\<open>Server already running at PID=\<close> followed by the stored process identifier.
\<close>

theorem launcher_start_when_connected:
  assumes "server_connected s"
  shows "fst (portal_receive_launcher2portal amp loads popen self (SSTART amp) arguments s)
           = Returns (Result_dumps False
               (''Server already running at PID='' @ str_pid (server_process_id s)))
       \<and> spawned (snd (portal_receive_launcher2portal amp loads popen self (SSTART amp) arguments s))
           = spawned s
       \<and> server_process_id
            (snd (portal_receive_launcher2portal amp loads popen self (SSTART amp) arguments s))
           = server_process_id s
       \<and> server_twistd_cmd
            (snd (portal_receive_launcher2portal amp loads popen self (SSTART amp) arguments s))
           = server_twistd_cmd s"
  using assms by (simp add: portal_receive_launcher2portal_def retval_def)

theorem launcher_start_when_connected_witness:
  "server_connected core_running
   \<and> fst (portal_receive_launcher2portal evennia_amp id popen_ok 2 (CHR 0x0F) [''run-core'']
            core_running)
       = Returns (Result_dumps False ''Server already running at PID=100'')
   \<and> spawned (snd (portal_receive_launcher2portal evennia_amp id popen_ok 2 (CHR 0x0F)
            [''run-core''] core_running)) = []
   \<and> server_process_id (snd (portal_receive_launcher2portal evennia_amp id popen_ok 2 (CHR 0x0F)
            [''run-core''] core_running)) = Some 100"
proof -
  have c: "server_connected core_running"
    by (rule core_running_connected)
  have op: "SSTART evennia_amp = CHR 0x0F"
    by (simp add: evennia_amp_def)
  show ?thesis
    using c launcher_start_when_connected [OF c, of evennia_amp id popen_ok 2 "[''run-core'']"]
    by (simp add: op core_running_fields str_pid_def str_int_def str_nat.simps)
qed

text \<open>
  Claim C1. The claim has the launcher's reload, received while the Server connection is
  open, register a disconnect action that re-spawns the Server with the cached command,
  and acknowledge. The body of the handler (lines 235 to 238, under the comment "don't
  restart until the server connection goes down") only calls \<^verbatim>\<open>stop_server\<close>: the
  reload notice is sent, the registry of disconnect callbacks is left as it was, and the
  reply is the fallback \<^verbatim>\<open>{"result": ""}\<close>. So when nothing was registered for a
  connection \<open>c\<close> before, losing \<open>c\<close> afterwards spawns no process. The registration
  the claim describes is what the Server's admin handler does for the same operation
  (lines 321 to 324).
\<close>

theorem launcher_reload_when_connected:
  assumes "server_connected s" and "SRELOAD amp \<noteq> SSTART amp"
  shows "portal_receive_launcher2portal amp loads popen self (SRELOAD amp) arguments s
           = (Returns (Result_plain []),
              emit [Log_msg_operation (of_char (SRELOAD amp)), Log_msg_arguments (loads arguments),
                    AdminPortal2Server self (SRELOAD amp) Map.empty] s)
       \<and> disconnect_callbacks
            (snd (portal_receive_launcher2portal amp loads popen self (SRELOAD amp) arguments s))
           = disconnect_callbacks s
       \<and> (disconnect_callbacks s c = None \<longrightarrow>
            spawned (snd (connectionLost popen foreign c
              (snd (portal_receive_launcher2portal amp loads popen self (SRELOAD amp) arguments s))))
            = spawned s)"
  using assms
  by (simp add: portal_receive_launcher2portal_def stop_server_emit emit_emit
        connectionLost_unregistered)

theorem launcher_reload_when_connected_witness:
  "server_connected core_running \<and> SRELOAD evennia_amp \<noteq> SSTART evennia_amp
   \<and> fst (portal_receive_launcher2portal evennia_amp id popen_ok 2 (CHR 0x0E) [''run-core'']
            core_running) = Returns (Result_plain [])
   \<and> disconnect_callbacks (snd (portal_receive_launcher2portal evennia_amp id popen_ok 2 (CHR 0x0E)
            [''run-core''] core_running)) 1 = None
   \<and> spawned (snd (connectionLost popen_ok foreign_raises 1
        (snd (portal_receive_launcher2portal evennia_amp id popen_ok 2 (CHR 0x0E) [''run-core'']
            core_running)))) = []"
proof -
  have d: "SRELOAD evennia_amp \<noteq> SSTART evennia_amp"
    by (simp add: evennia_amp_def)
  show ?thesis
    using d core_running_connected
      launcher_reload_when_connected [OF core_running_connected d,
        of id popen_ok 2 "[''run-core'']" 1 foreign_raises]
    by (elim conjE) (simp add: evennia_amp_fields core_running_fields)
qed

text \<open>
  Claim C2. The claim has the launcher's shutdown-all, received while the Server
  connection is open, register a disconnect action that shuts the Portal down and then
  send the shutdown notice, so that the Portal terminates. The body of the handler (lines
  258 to 262, under the comment "portal + server shutdown") sends the Server-only
  shutdown notice and returns \<^verbatim>\<open>(True, "Server stopped.")\<close> at once: the call of
  \<^verbatim>\<open>portal.shutdown\<close> on line 262 is reached only when the Server is not connected.
  Nothing is registered and \<^verbatim>\<open>portal.shutdown\<close> is not called, neither by the handler
  nor, when nothing was registered for \<open>c\<close> before, by a later loss of connection \<open>c\<close>.
  The registration the claim describes is what the Server's admin handler does for the
  same operation (lines 334 to 337).
\<close>

theorem launcher_pshutd_when_connected:
  assumes "server_connected s"
    and "PSHUTD amp \<notin> set [SSTART amp, SRELOAD amp, SRESET amp, SSHUTD amp]"
  shows "portal_receive_launcher2portal amp loads popen self (PSHUTD amp) arguments s
           = (Returns (Result_dumps True ''Server stopped.''),
              emit [Log_msg_operation (of_char (PSHUTD amp)), Log_msg_arguments (loads arguments),
                    AdminPortal2Server self (SSHUTD amp) Map.empty] s)
       \<and> disconnect_callbacks
            (snd (portal_receive_launcher2portal amp loads popen self (PSHUTD amp) arguments s))
           = disconnect_callbacks s
       \<and> portal_shutdowns
            (snd (portal_receive_launcher2portal amp loads popen self (PSHUTD amp) arguments s))
           = portal_shutdowns s
       \<and> (disconnect_callbacks s c = None \<longrightarrow>
            portal_shutdowns (snd (connectionLost popen foreign c
              (snd (portal_receive_launcher2portal amp loads popen self (PSHUTD amp) arguments s))))
            = portal_shutdowns s)"
  using assms
  by (simp add: portal_receive_launcher2portal_def stop_server_emit emit_emit retval_def
        connectionLost_unregistered)

theorem launcher_pshutd_when_connected_witness:
  "server_connected core_running
   \<and> fst (portal_receive_launcher2portal evennia_amp id popen_ok 2 (CHR 0x10) []
            core_running) = Returns (Result_dumps True ''Server stopped.'')
   \<and> trace (snd (portal_receive_launcher2portal evennia_amp id popen_ok 2 (CHR 0x10) []
            core_running))
       = [Log_msg_operation 16, Log_msg_arguments [], AdminPortal2Server 2 (CHR 0x11) Map.empty]
   \<and> disconnect_callbacks (snd (portal_receive_launcher2portal evennia_amp id popen_ok 2 (CHR 0x10)
            [] core_running)) 1 = None
   \<and> portal_shutdowns (snd (connectionLost popen_ok foreign_raises 1
        (snd (portal_receive_launcher2portal evennia_amp id popen_ok 2 (CHR 0x10) []
            core_running)))) = []"
proof -
  have d: "PSHUTD evennia_amp
      \<notin> set [SSTART evennia_amp, SRELOAD evennia_amp, SRESET evennia_amp, SSHUTD evennia_amp]"
    by (simp add: evennia_amp_def)
  show ?thesis
    using core_running_connected
      launcher_pshutd_when_connected [OF core_running_connected d,
        of id popen_ok 2 "[]" 1 foreign_raises]
    by (elim conjE) (simp add: evennia_amp_fields core_running_fields)
qed

text \<open>
  Claim C3. The claim has the launcher's reset, received while the Server connection is
  open, send the reset notice and return a success message, with no exception raised
  while the reply is built. The body of the handler (lines 243 to 246) sends the reset
  notice and then formats the reply from the local variable \<^verbatim>\<open>spid\<close>, which this
  branch never assigns: Python raises \<^verbatim>\<open>UnboundLocalError\<close> and no reply is built.
\<close>

theorem launcher_reset_when_connected:
  assumes "server_connected s" and "SRESET amp \<noteq> SSTART amp" and "SRESET amp \<noteq> SRELOAD amp"
  shows "portal_receive_launcher2portal amp loads popen self (SRESET amp) arguments s
           = (Raises (UnboundLocalError ''spid''),
              emit [Log_msg_operation (of_char (SRESET amp)), Log_msg_arguments (loads arguments),
                    AdminPortal2Server self (SRESET amp) Map.empty] s)"
  using assms
  by (simp add: portal_receive_launcher2portal_def stop_server_emit emit_emit)

theorem launcher_reset_when_connected_witness:
  "server_connected core_running \<and> SRESET evennia_amp \<noteq> SSTART evennia_amp
   \<and> SRESET evennia_amp \<noteq> SRELOAD evennia_amp
   \<and> portal_receive_launcher2portal evennia_amp id popen_ok 2 (CHR 0x13) [''run-core'']
        core_running
      = (Raises (UnboundLocalError ''spid''),
         emit [Log_msg_operation 19, Log_msg_arguments [''run-core''],
               AdminPortal2Server 2 (CHR 0x13) Map.empty] core_running)"
proof -
  have d: "SRESET evennia_amp \<noteq> SSTART evennia_amp" "SRESET evennia_amp \<noteq> SRELOAD evennia_amp"
    by (simp_all add: evennia_amp_def)
  show ?thesis
    using d core_running_connected
      launcher_reset_when_connected [OF core_running_connected d,
        of id popen_ok 2 "[''run-core'']"]
    by (simp add: evennia_amp_fields)
qed

subsection \<open>The launcher's handler, Server not connected\<close>

text \<open>
  Claim C4. The claim has the launcher's start, received while the Server is not connected
  and with a launch that fails, answered by a failure with a reason, never by a success
  reply. \<^verbatim>\<open>start_server\<close> reports the failed launch by returning 0 (line 103); the
  handler (lines 232 and 233) does not look at that value and formats it into a success
  reply: \<^verbatim>\<open>(True, "Server started with PID 0.")\<close>.
\<close>

theorem launcher_start_spawn_failure:
  assumes "\<not> server_connected s" and "popen (Some (loads arguments)) = Inl e"
  shows "portal_receive_launcher2portal amp loads popen self (SSTART amp) arguments s
           = (Returns (Result_dumps True ''Server started with PID 0.''),
              emit [Log_msg_operation (of_char (SSTART amp)), Log_msg_arguments (loads arguments),
                    Popen (Some (loads arguments)), Log_trace e]
                (s\<lparr>server_process_id := None\<rparr>))"
  using assms
  by (simp add: portal_receive_launcher2portal_def start_server_def retval_def str_int_0 emit_def)

theorem launcher_start_spawn_failure_witness:
  "\<not> server_connected core_down
   \<and> popen_fails (Some (id [''no-such-core''])) = Inl (OSError ''No such file or directory'')
   \<and> fst (portal_receive_launcher2portal evennia_amp id popen_fails 2 (CHR 0x0F) [''no-such-core'']
            core_down) = Returns (Result_dumps True ''Server started with PID 0.'')
   \<and> server_process_id (snd (portal_receive_launcher2portal evennia_amp id popen_fails 2 (CHR 0x0F)
            [''no-such-core''] core_down)) = None"
proof -
  have f: "popen_fails (Some (id [''no-such-core''])) = Inl (OSError ''No such file or directory'')"
    by (simp add: popen_fails_def)
  show ?thesis
    using core_down_disconnected f
      launcher_start_spawn_failure [where s = core_down and popen = popen_fails and loads = id
        and arguments = "[''no-such-core'']" and e = "OSError ''No such file or directory''"
        and amp = evennia_amp and self = 2]
    by (simp add: evennia_amp_fields)
qed

subsection \<open>The launcher's handler, unrecognized operation\<close>

text \<open>
  Claim C5, as the spec has it: for an operation code outside the enumeration the handler
  returns a structured reply with success \<^verbatim>\<open>False\<close>, not an exception. On the code
  \<open>z\<close> the body of the handler raises instead (line 265), so it builds no reply.
\<close>

theorem launcher_unrecognized_no_reply:
  "fst (portal_receive_launcher2portal evennia_amp id popen_ok 2 (CHR ''z'') [] core_running)
     = Raises (Exception ''operation z not recognized.'')"
  by (simp add: portal_receive_launcher2portal_def evennia_amp_def)

text \<open>
  Claim C5, amended. For every operation code outside the five the handler compares
  against, the body of the handler raises \<^verbatim>\<open>Exception\<close> with the message
  \<^verbatim>\<open>operation <code> not recognized.\<close> and builds no reply. It has written its two log
  lines and nothing else: the connection flags are as before, and a command handled
  afterwards gets the reply it would have got without the unrecognized one. What the AMP
  layer around the handler sends for the exception is outside the file.
\<close>

theorem launcher_unrecognized_raises:
  assumes "operation \<notin> set (launcher_ops amp)"
  shows "portal_receive_launcher2portal amp loads popen self operation arguments s
           = (Raises (Exception (''operation '' @ [operation] @ '' not recognized.'')),
              emit [Log_msg_operation (of_char operation), Log_msg_arguments (loads arguments)] s)
       \<and> transport_connected
            (snd (portal_receive_launcher2portal amp loads popen self operation arguments s))
           = transport_connected s
       \<and> fst (portal_receive_launcher2portal amp loads popen self' operation' arguments'
                 (snd (portal_receive_launcher2portal amp loads popen self operation arguments s)))
           = fst (portal_receive_launcher2portal amp loads popen self' operation' arguments' s)"
proof -
  have raised: "portal_receive_launcher2portal amp loads popen self operation arguments s
           = (Raises (Exception (''operation '' @ [operation] @ '' not recognized.'')),
              emit [Log_msg_operation (of_char operation), Log_msg_arguments (loads arguments)] s)"
    using assms by (auto simp add: portal_receive_launcher2portal_def launcher_ops_def)
  show ?thesis
    by (simp only: raised snd_conv launcher_reply_ignores_trace emit_fields)
qed

theorem launcher_unrecognized_raises_witness:
  "CHR ''z'' \<notin> set (launcher_ops evennia_amp)
   \<and> portal_receive_launcher2portal evennia_amp id popen_ok 2 (CHR ''z'') [] core_running
      = (Raises (Exception ''operation z not recognized.''),
         emit [Log_msg_operation 122, Log_msg_arguments []] core_running)
   \<and> fst (portal_receive_launcher2portal evennia_amp id popen_ok 2 (CHR 0x11) []
        (snd (portal_receive_launcher2portal evennia_amp id popen_ok 2 (CHR ''z'') []
           core_running)))
      = Returns (Result_dumps True ''Server stopped.'')"
proof -
  have d: "CHR ''z'' \<notin> set (launcher_ops evennia_amp)"
    by (simp add: launcher_ops_def evennia_amp_def)
  have next_reply: "fst (portal_receive_launcher2portal evennia_amp id popen_ok 2 (CHR 0x11) []
        core_running) = Returns (Result_dumps True ''Server stopped.'')"
    using core_running_connected
    by (simp add: portal_receive_launcher2portal_def evennia_amp_def retval_def)
  show ?thesis
    using d next_reply
      launcher_unrecognized_raises [OF d, of id popen_ok 2 "[]" core_running 2 "CHR 0x11" "[]"]
    by (elim conjE) simp
qed

subsection \<open>Losing a connection\<close>

text \<open>
  Claim C7. A registered disconnect action fires at most once per connection close.
  Registering a second action for the same connection overwrites the first, so losing
  the connection calls the second one only, once, in a registry from which the entry is
  already gone. After \<^verbatim>\<open>connectionLost\<close> the connection has no entry, and a second
  \<^verbatim>\<open>connectionLost\<close> for it changes nothing. The two callables of the file do not
  touch the registry; a foreign callable is assumed not to register the connection anew
  while it runs.
\<close>

theorem disconnect_action_fires_once:
  assumes "\<forall>x t. disconnect_callbacks t self = None
             \<longrightarrow> disconnect_callbacks (snd (foreign x t)) self = None"
  shows "wait_for_disconnect self cb2 (wait_for_disconnect self cb1 s)
           = wait_for_disconnect self cb2 s
       \<and> connectionLost popen foreign self
            (wait_for_disconnect self cb2 (wait_for_disconnect self cb1 s))
           = (case call_callback popen foreign cb2
                     (s\<lparr>disconnect_callbacks := (disconnect_callbacks s)(self := None)\<rparr>) of
                (Returns u, s') \<Rightarrow> (Returns (), s')
              | (Raises e, s') \<Rightarrow> (Returns (), emit [Log_trace e] s')
              | (Raises_base b, s') \<Rightarrow> (Raises_base b, s'))
       \<and> disconnect_callbacks (snd (connectionLost popen foreign self s)) self = None
       \<and> connectionLost popen foreign self (snd (connectionLost popen foreign self s))
           = (Returns (), snd (connectionLost popen foreign self s))"
proof -
  have "\<And>x t. disconnect_callbacks t self = None
             \<Longrightarrow> disconnect_callbacks (snd (foreign x t)) self = None"
    using assms by blast
  then have gone: "disconnect_callbacks (snd (connectionLost popen foreign self s)) self = None"
    by (rule connectionLost_unregisters)
  show ?thesis
    using gone
    by (simp add: wait_for_disconnect_twice connectionLost_registered connectionLost_unregistered)
qed

theorem disconnect_action_fires_once_witness:
  "spawned (snd (connectionLost popen_ok foreign_silent 1
       (wait_for_disconnect 1 (Start_server 1 (Some [''run-core'']))
          (wait_for_disconnect 1 (Portal_shutdown False) core_running))))
     = [Some [''run-core'']]
   \<and> portal_shutdowns (snd (connectionLost popen_ok foreign_silent 1
       (wait_for_disconnect 1 (Start_server 1 (Some [''run-core'']))
          (wait_for_disconnect 1 (Portal_shutdown False) core_running))))
     = []
   \<and> connectionLost popen_ok foreign_silent 1
       (snd (connectionLost popen_ok foreign_silent 1
          (wait_for_disconnect 1 (Start_server 1 (Some [''run-core'']))
             (wait_for_disconnect 1 (Portal_shutdown False) core_running))))
     = (Returns (), snd (connectionLost popen_ok foreign_silent 1
          (wait_for_disconnect 1 (Start_server 1 (Some [''run-core'']))
             (wait_for_disconnect 1 (Portal_shutdown False) core_running))))"
proof -
  note once = disconnect_action_fires_once [where foreign = foreign_silent and self = 1,
      OF foreign_silent_keeps_unregistered]
  have fired: "connectionLost popen_ok foreign_silent 1
       (wait_for_disconnect 1 (Start_server 1 (Some [''run-core'']))
          (wait_for_disconnect 1 (Portal_shutdown False) core_running))
     = (Returns (),
        (emit [Popen (Some [''run-core'']), Log_server ''starting'']
           (core_running\<lparr>disconnect_callbacks := (disconnect_callbacks core_running)(1 := None)\<rparr>))
          \<lparr>server_process_id := Some 101, server_twistd_cmd := Some [''run-core'']\<rparr>)"
    using once [where ?cb2.0 = "Start_server 1 (Some [''run-core''])"
        and ?cb1.0 = "Portal_shutdown False" and s = core_running and popen = popen_ok]
    by (elim conjE) (simp add: call_callback_def start_server_def popen_ok_def)
  have again: "connectionLost popen_ok foreign_silent 1
       (snd (connectionLost popen_ok foreign_silent 1
          (wait_for_disconnect 1 (Start_server 1 (Some [''run-core'']))
             (wait_for_disconnect 1 (Portal_shutdown False) core_running))))
     = (Returns (), snd (connectionLost popen_ok foreign_silent 1
          (wait_for_disconnect 1 (Start_server 1 (Some [''run-core'']))
             (wait_for_disconnect 1 (Portal_shutdown False) core_running))))"
    using once [where ?cb2.0 = "Portal_shutdown False"
        and ?cb1.0 = "Portal_shutdown False" and popen = popen_ok
        and s = "wait_for_disconnect 1 (Start_server 1 (Some [''run-core'']))
           (wait_for_disconnect 1 (Portal_shutdown False) core_running)"]
    by blast
  have one_spawn: "spawned (snd (connectionLost popen_ok foreign_silent 1
       (wait_for_disconnect 1 (Start_server 1 (Some [''run-core'']))
          (wait_for_disconnect 1 (Portal_shutdown False) core_running))))
     = [Some [''run-core'']]"
    by (simp only: fired snd_conv) (simp add: spawned_def core_running_fields emit_def)
  have no_shutdown: "portal_shutdowns (snd (connectionLost popen_ok foreign_silent 1
       (wait_for_disconnect 1 (Start_server 1 (Some [''run-core'']))
          (wait_for_disconnect 1 (Portal_shutdown False) core_running))))
     = []"
    by (simp only: fired snd_conv) (simp add: portal_shutdowns_def core_running_fields emit_def)
  show ?thesis
    using one_spawn no_shutdown again by blast
qed

text \<open>
  Claim C9, as the spec has it: any exception raised by a disconnect action fired on
  connection loss is caught and logged inside \<^verbatim>\<open>connectionLost\<close> and never propagates
  out of it, for every possible action. A registered callable that is interrupted raises
  \<^verbatim>\<open>KeyboardInterrupt\<close>, which is not an instance of \<^verbatim>\<open>Exception\<close>: the clause of
  line 85 does not catch it, nothing is logged, and it leaves \<^verbatim>\<open>connectionLost\<close>.
\<close>

theorem connectionLost_propagates_interrupt:
  "connectionLost popen_ok foreign_interrupted 1
     (wait_for_disconnect 1 (Foreign ''halt'') core_running)
     = (Raises_base KeyboardInterrupt, core_running)"
  by (simp add: connectionLost_def call_callback_def foreign_interrupted_def
        wait_for_disconnect_def core_running_def)

text \<open>
  Claim C9, amended. Any instance of \<^verbatim>\<open>Exception\<close> raised by a disconnect action
  while it is fired on connection loss is caught and logged inside \<^verbatim>\<open>connectionLost\<close>
  and does not propagate out of it: no instance of \<^verbatim>\<open>Exception\<close> ever leaves the
  method, and when the callable raises the instance \<open>e\<close>, leaving the state \<open>s'\<close>,
  the method returns normally and leaves \<open>s'\<close> with the traceback of \<open>e\<close> logged.
  An exception outside \<^verbatim>\<open>Exception\<close> (\<^verbatim>\<open>SystemExit\<close>, \<^verbatim>\<open>KeyboardInterrupt\<close>,
  \<^verbatim>\<open>GeneratorExit\<close>) is not caught: it leaves the method, with nothing logged.
\<close>

theorem connectionLost_catches_Exception:
  "(\<forall>e. fst (connectionLost popen foreign self s) \<noteq> Raises e)
   \<and> (\<forall>cb e s'. disconnect_callbacks s self = Some cb \<longrightarrow>
         call_callback popen foreign cb
           (s\<lparr>disconnect_callbacks := (disconnect_callbacks s)(self := None)\<rparr>) = (Raises e, s')
         \<longrightarrow> connectionLost popen foreign self s = (Returns (), emit [Log_trace e] s'))
   \<and> (\<forall>cb b s'. disconnect_callbacks s self = Some cb \<longrightarrow>
         call_callback popen foreign cb
           (s\<lparr>disconnect_callbacks := (disconnect_callbacks s)(self := None)\<rparr>)
           = (Raises_base b, s')
         \<longrightarrow> connectionLost popen foreign self s = (Raises_base b, s'))"
proof (cases "disconnect_callbacks s self")
  case None
  then show ?thesis
    by (simp add: connectionLost_def)
next
  case (Some cb)
  obtain r s' where called: "call_callback popen foreign cb
      (s\<lparr>disconnect_callbacks := (disconnect_callbacks s)(self := None)\<rparr>) = (r, s')"
    by (cases "call_callback popen foreign cb
      (s\<lparr>disconnect_callbacks := (disconnect_callbacks s)(self := None)\<rparr>)") blast
  show ?thesis
  proof (cases r)
    case (Returns u)
    with Some called show ?thesis
      by (simp add: connectionLost_def)
  next
    case (Raises e)
    with Some called show ?thesis
      by (simp add: connectionLost_def)
  next
    case (Raises_base b)
    with Some called show ?thesis
      by (simp add: connectionLost_def)
  qed
qed

theorem connectionLost_catches_Exception_witness:
  "connectionLost popen_ok foreign_raises 1
          (wait_for_disconnect 1 (Foreign ''boom'') core_running)
       = (Returns (), emit [Log_trace (Exception ''boom'')] core_running)
   \<and> connectionLost popen_ok foreign_interrupted 1
          (wait_for_disconnect 1 (Foreign ''boom'') core_running)
       = (Raises_base KeyboardInterrupt, core_running)"
proof -
  let ?s = "wait_for_disconnect 1 (Foreign ''boom'') core_running"
  have reg: "disconnect_callbacks ?s 1 = Some (Foreign ''boom'')"
    by (simp add: wait_for_disconnect_def)
  have popped: "?s\<lparr>disconnect_callbacks := (disconnect_callbacks ?s)(1 := None)\<rparr> = core_running"
    by (simp add: wait_for_disconnect_def core_running_def)
  have raised: "call_callback popen_ok foreign_raises (Foreign ''boom'')
      (?s\<lparr>disconnect_callbacks := (disconnect_callbacks ?s)(1 := None)\<rparr>)
      = (Raises (Exception ''boom''), core_running)"
    by (simp only: popped) (simp add: call_callback_def foreign_raises_def)
  have interrupted: "call_callback popen_ok foreign_interrupted (Foreign ''boom'')
      (?s\<lparr>disconnect_callbacks := (disconnect_callbacks ?s)(1 := None)\<rparr>)
      = (Raises_base KeyboardInterrupt, core_running)"
    by (simp only: popped) (simp add: call_callback_def foreign_interrupted_def)
  have caught: "connectionLost popen_ok foreign_raises 1 ?s
      = (Returns (), emit [Log_trace (Exception ''boom'')] core_running)"
    using reg raised connectionLost_catches_Exception [of popen_ok foreign_raises 1 ?s]
    by blast
  have passed: "connectionLost popen_ok foreign_interrupted 1 ?s
      = (Raises_base KeyboardInterrupt, core_running)"
    using reg interrupted connectionLost_catches_Exception [of popen_ok foreign_interrupted 1 ?s]
    by blast
  show ?thesis
    using caught passed by (rule conjI)
qed

subsection \<open>The Server's admin handler\<close>

text \<open>
  Claim C10. Every admin message received on the Server-facing connection, whatever its
  operation code, recognized or not, makes that connection the stored Server connection,
  overwriting the one stored before: the assignment of line 303 comes before the chain
  of comparisons, and no branch assigns the attribute again. A message is taken to carry
  an operation code, that is, its keyword dictionary has the key \<^verbatim>\<open>operation\<close>.
\<close>

theorem adminserver_sets_server_connection:
  assumes "snd (data_in packed_data) ''operation'' = Some operation"
  shows "server_connection
           (snd (portal_receive_adminserver2portal amp data_in self packed_data s)) = Some self"
proof (cases "data_in packed_data")
  case (Pair sessid kwargs0)
  with assms have "kwargs0 ''operation'' = Some operation"
    by simp
  with Pair show ?thesis
    by (simp add: portal_receive_adminserver2portal_def Let_def stop_server_emit
          wait_for_disconnect_def send_AdminPortal2Server_def)
qed

theorem adminserver_sets_server_connection_witness:
  "server_connection core_running = Some 1
   \<and> server_connection
       (snd (portal_receive_adminserver2portal evennia_amp id 2
          (0, [''operation'' \<mapsto> PyStr ''z'']) core_running)) = Some 2
   \<and> fst (portal_receive_adminserver2portal evennia_amp id 2
          (0, [''operation'' \<mapsto> PyStr ''z'']) core_running)
       = Raises (Exception ''operation z not recognized.'')"
proof -
  have op: "snd (id (0::int, [''operation'' \<mapsto> PyStr ''z''])) ''operation'' = Some (PyStr ''z'')"
    by simp
  have r: "fst (portal_receive_adminserver2portal evennia_amp id 2
          (0, [''operation'' \<mapsto> PyStr ''z'']) core_running)
       = Raises (Exception ''operation z not recognized.'')"
    by (simp add: portal_receive_adminserver2portal_def evennia_amp_def)
  show ?thesis
    using r op
      adminserver_sets_server_connection [where data_in = id
        and packed_data = "(0, [''operation'' \<mapsto> PyStr ''z''])"
        and operation = "PyStr ''z''" and amp = evennia_amp and self = 2 and s = core_running]
    by (simp add: core_running_fields)
qed

end
